theory Spec2Isabelle
  imports Main "HOL-Library.List_Lexorder" "HOL-Library.Char_ord" "HOL-Library.AList"
    "HOL-Library.Multiset"
begin

section \<open>Registry paths\<close>

text \<open>
  The registry of \<^verbatim>\<open>packages/core/src/shared/core/registry.ts\<close> indexes commands and
  groups by \<^verbatim>\<open>RegistryPath\<close> values. The class itself (\<^verbatim>\<open>./path\<close>) is not among the
  sources, so its operations are written down from the specification's data model
  (section 3, PathKey) and from the way \<^verbatim>\<open>registry.ts\<close> calls them.
\<close>

type_synonym path = "string list"

text \<open>Lua's \<^verbatim>\<open>string.lower\<close> in the C locale: only \<^verbatim>\<open>A-Z\<close> change.\<close>

definition lowerChar :: "char \<Rightarrow> char" where
  "lowerChar c =
     (let n = (of_char c :: nat) in if 65 \<le> n \<and> n \<le> 90 then char_of (n + 32) else c)"

definition lower :: "string \<Rightarrow> string" where
  "lower s = map lowerChar s"

text \<open>
  Modelled from the spec: \<^verbatim>\<open>RegistryPath.toString\<close> is missing; the canonical string
  form is the segments joined by a separator, here \<^verbatim>\<open>/\<close>.
\<close>

fun toString :: "path \<Rightarrow> string" where
  "toString [] = []"
| "toString [p] = p"
| "toString (p # q # ps) = p @ ''/'' @ toString (q # ps)"

text \<open>Modelled from the spec: \<^verbatim>\<open>RegistryPath.size\<close> is missing; the number of segments.\<close>

definition size_path :: "path \<Rightarrow> nat" where
  "size_path p = length p"

text \<open>
  Modelled from the spec: \<^verbatim>\<open>RegistryPath.parent\<close> is missing; it drops the last
  segment, and a single-segment path has the empty result.
\<close>

definition parent :: "path \<Rightarrow> path" where
  "parent p = butlast p"

text \<open>
  Modelled from the spec: \<^verbatim>\<open>RegistryPath.tail\<close> is missing; the last segment. The
  empty path has none (\<^verbatim>\<open>nil\<close>), which the sort comparators never meet.
\<close>

definition tail :: "path \<Rightarrow> string" where
  "tail p = (if p = [] then [] else last p)"

text \<open>
  Modelled from the spec: \<^verbatim>\<open>RegistryPath.slice\<close> is missing. The cache walk of the
  specification stores, at step \<open>i\<close>, the prefix that is one segment longer than the key
  of that step; in \<^verbatim>\<open>cachePath\<close> that stored value is \<^verbatim>\<open>path.slice(0, i)\<close>, so the
  upper index is inclusive: \<^verbatim>\<open>slice(from, to)\<close> holds the segments \<open>from .. to\<close>.
\<close>

definition slice :: "path \<Rightarrow> nat \<Rightarrow> nat \<Rightarrow> path" where
  "slice p from to = take (Suc to - from) (drop from p)"

text \<open>
  Modelled from the spec: \<^verbatim>\<open>RegistryPath.equals\<close> is missing; two paths are equal iff
  their canonical strings match.
\<close>

definition equals :: "path \<Rightarrow> path \<Rightarrow> bool" where
  "equals a b = (toString a = toString b)"

section \<open>The child-path cache\<close>

type_synonym cache = "string \<rightharpoonup> path list"

definition ROOT_KEY :: string where
  "ROOT_KEY = ''__root__''"

text \<open>
  \<^verbatim>\<open>cache.sort((a, b) => a.tail() < b.tail())\<close>: ascending by last segment, under
  Lua's byte-wise string order.
\<close>

definition sortByTail :: "path list \<Rightarrow> path list" where
  "sortByTail ps = sort_key tail ps"

text \<open>
  The loop of \<^verbatim>\<open>cachePath\<close> over \<^verbatim>\<open>$range(0, path.size() - 1)\<close> (both ends
  included). The array fetched for \<open>key\<close> is stored under \<open>key\<close> before it is extended
  in place, so the map sees the pushed and sorted array.
\<close>

fun cachePathLoop :: "path \<Rightarrow> nat list \<Rightarrow> string \<Rightarrow> cache \<Rightarrow> cache" where
  "cachePathLoop p [] key c = c"
| "cachePathLoop p (i # is) key c =
     (let pathSlice = slice p 0 i;
          cache = (case c key of None \<Rightarrow> [] | Some l \<Rightarrow> l);
          c1 = c(key \<mapsto> cache)
      in if list_ex (\<lambda>val. equals val pathSlice) cache
         then cachePathLoop p is (toString pathSlice) c1
         else cachePathLoop p is (toString pathSlice)
                (c1(key \<mapsto> sortByTail (cache @ [pathSlice]))))"

definition cachePath :: "path \<Rightarrow> cache \<Rightarrow> cache" where
  "cachePath p c = cachePathLoop p [0 ..< size_path p] ROOT_KEY c"

text \<open>
  The loop of \<^verbatim>\<open>uncachePath\<close>: it stops (\<^verbatim>\<open>break\<close>) at the first key that has no
  entry, and deletes a key whose filtered list is empty.
\<close>

fun uncachePathLoop :: "path \<Rightarrow> nat list \<Rightarrow> string \<Rightarrow> cache \<Rightarrow> cache" where
  "uncachePathLoop p [] key c = c"
| "uncachePathLoop p (i # is) key c =
     (case c key of
        None \<Rightarrow> c
      | Some cache \<Rightarrow>
          (let pathSlice = slice p 0 i;
               newCache = sortByTail (filter (\<lambda>val. \<not> equals val pathSlice) cache)
           in uncachePathLoop p is (toString pathSlice)
                (if newCache = [] then c(key := None) else c(key \<mapsto> newCache))))"

definition uncachePath :: "path \<Rightarrow> cache \<Rightarrow> cache" where
  "uncachePath p c = uncachePathLoop p [0 ..< size_path p] ROOT_KEY c"

section \<open>Commands and groups\<close>

text \<open>
  Modelled from the spec: \<^verbatim>\<open>BaseCommand\<close> (\<^verbatim>\<open>./command\<close>) is missing. A command is
  one entity that owns a primary path (\<^verbatim>\<open>getPath\<close>) and its alias paths;
  \<^verbatim>\<open>getPaths\<close> lists the primary path first. Its callback, guards and metadata play no
  part in registration and are left out; two commands are the same object iff they are
  the same record.
\<close>

record command =
  cpath :: path
  caliases :: "path list"

definition getPath :: "command \<Rightarrow> path" where
  "getPath c = cpath c"

definition getPaths :: "command \<Rightarrow> path list" where
  "getPaths c = cpath c # caliases c"

text \<open>\<^verbatim>\<open>GroupOptions\<close>: the fields \<^verbatim>\<open>registerGroup\<close> reads.\<close>

record groupOptions =
  goName :: string
  goParent :: "string list option"

text \<open>
  Modelled from the spec: \<^verbatim>\<open>CommandGroup\<close> (\<^verbatim>\<open>./command\<close>) is missing. A group has
  its path, its options, a map from child name to child group and a list of child
  commands. A child group object is represented by its path: the registry only ever
  calls \<^verbatim>\<open>getPath\<close> on the children it iterates. \<^verbatim>\<open>getGroups\<close> and
  \<^verbatim>\<open>getCommands\<close> return the children in insertion order, as a copy.
\<close>

record commandGroup =
  gpath :: path
  goptions :: groupOptions
  ggroups :: "(string \<times> path) list"
  gcommands :: "command list"

definition newCommandGroup :: "path \<Rightarrow> groupOptions \<Rightarrow> commandGroup" where
  "newCommandGroup p opts = \<lparr>gpath = p, goptions = opts, ggroups = [], gcommands = []\<rparr>"

definition hasGroup :: "commandGroup \<Rightarrow> string \<Rightarrow> bool" where
  "hasGroup g n = (map_of (ggroups g) n \<noteq> None)"

definition addGroup :: "commandGroup \<Rightarrow> commandGroup \<Rightarrow> commandGroup" where
  "addGroup g child =
     g\<lparr>ggroups := AList.update (goName (goptions child)) (gpath child) (ggroups g)\<rparr>"

definition removeGroup :: "commandGroup \<Rightarrow> commandGroup \<Rightarrow> commandGroup" where
  "removeGroup g child = g\<lparr>ggroups := AList.delete (goName (goptions child)) (ggroups g)\<rparr>"

definition groupAddCommand :: "commandGroup \<Rightarrow> command \<Rightarrow> commandGroup" where
  "groupAddCommand g c = g\<lparr>gcommands := gcommands g @ [c]\<rparr>"

definition removeCommand :: "commandGroup \<Rightarrow> command \<Rightarrow> commandGroup" where
  "removeCommand g c = g\<lparr>gcommands := filter (\<lambda>x. x \<noteq> c) (gcommands g)\<rparr>"

definition getCommands :: "commandGroup \<Rightarrow> command list" where
  "getCommands g = gcommands g"

definition getGroups :: "commandGroup \<Rightarrow> path list" where
  "getGroups g = map snd (ggroups g)"

section \<open>The registry state\<close>

text \<open>
  \<^verbatim>\<open>ArgumentType\<close> as \<^verbatim>\<open>argTypeSchema\<close> describes it; \<open>'f\<close> stands for the callbacks.
\<close>

record 'f argumentType =
  tname :: string
  expensive :: bool
  transform :: 'f
  suggestions :: "'f option"

text \<open>The four signals; a fired group is identified by its path.\<close>

datatype event =
  CommandRegistered command
| GroupRegistered path
| CommandUnregistered command
| GroupUnregistered path

text \<open>
  Modelled from the spec: \<^verbatim>\<open>CenturionLogger\<close> (\<^verbatim>\<open>../util/log\<close>) is missing. Its
  \<^verbatim>\<open>debug\<close>, \<^verbatim>\<open>warn\<close> and \<^verbatim>\<open>error\<close> report on the logging channel and return;
  \<^verbatim>\<open>assert\<close> is a hard precondition failure that halts the calling code path.
\<close>

datatype logEntry = Debug string | Warn string | Error string

record 'f registry =
  commands :: "string \<rightharpoonup> command"
  groups :: "string \<rightharpoonup> commandGroup"
  types :: "string \<rightharpoonup> 'f argumentType"
  cachedPaths :: cache
  fired :: "event list"
  logged :: "logEntry list"

definition emptyRegistry :: "'f registry" where
  "emptyRegistry =
     \<lparr>commands = Map.empty, groups = Map.empty, types = Map.empty,
      cachedPaths = Map.empty, fired = [], logged = []\<rparr>"

definition logMsg :: "logEntry \<Rightarrow> 'f registry \<Rightarrow> 'f registry" where
  "logMsg e st = st\<lparr>logged := logged st @ [e]\<rparr>"

definition fire :: "event \<Rightarrow> 'f registry \<Rightarrow> 'f registry" where
  "fire e st = st\<lparr>fired := fired st @ [e]\<rparr>"

text \<open>A call either returns or is halted by a failed assertion; both leave a state.\<close>

datatype 's outcome = Returned 's | Threw string 's

section \<open>Lookups\<close>

definition getType :: "'f registry \<Rightarrow> string \<Rightarrow> 'f argumentType option" where
  "getType st n = types st n"

definition getCommand :: "'f registry \<Rightarrow> path \<Rightarrow> command option" where
  "getCommand st p = commands st (toString p)"

definition getGroup :: "'f registry \<Rightarrow> path \<Rightarrow> commandGroup option" where
  "getGroup st p = groups st (toString p)"

definition getRootPaths :: "'f registry \<Rightarrow> path list" where
  "getRootPaths st = (case cachedPaths st ROOT_KEY of None \<Rightarrow> [] | Some ps \<Rightarrow> ps)"

definition getChildPaths :: "'f registry \<Rightarrow> path \<Rightarrow> path list" where
  "getChildPaths st p =
     (case cachedPaths st (lower (toString p)) of None \<Rightarrow> [] | Some ps \<Rightarrow> ps)"

section \<open>Registration\<close>

text \<open>The Lua pattern \<^verbatim>\<open>^[a-zA-Z0-9_]+$\<close>.\<close>

definition wordChar :: "char \<Rightarrow> bool" where
  "wordChar c =
     (let n = (of_char c :: nat)
      in (97 \<le> n \<and> n \<le> 122) \<or> (65 \<le> n \<and> n \<le> 90) \<or> (48 \<le> n \<and> n \<le> 57) \<or> n = 95)"

definition validPart :: "string \<Rightarrow> bool" where
  "validPart s = (s \<noteq> [] \<and> list_all wordChar s)"

text \<open>
  \<^verbatim>\<open>validatePath\<close> has no return value: every branch only reports on the logging
  channel, so its whole effect on the registry is the log.
\<close>

definition validatePath :: "path \<Rightarrow> bool \<Rightarrow> 'f registry \<Rightarrow> 'f registry" where
  "validatePath p isCommand st =
     (let pathString = toString p
      in if \<not> list_all validPart p
         then logMsg (Error (''Invalid path for '' @ (if isCommand then ''command'' else ''group'')
                  @ '': '' @ pathString
                  @ ''. Command/group names can only contain alphanumeric characters and underscores.'')) st
         else
           (let commandRegistered = (commands st pathString \<noteq> None)
            in if commandRegistered \<and> isCommand
               then logMsg (Error (''Duplicate command: '' @ pathString)) st
               else if commandRegistered
               then logMsg (Error (''A command already exists with the same name as this group: ''
                        @ pathString)) st
               else
                 (let groupRegistered = (groups st pathString \<noteq> None)
                  in if groupRegistered \<and> isCommand
                     then logMsg (Error (''A group already exists with the same name as this command: ''
                              @ pathString)) st
                     else if groupRegistered
                     then logMsg (Error (''Duplicate group: '' @ pathString)) st
                     else st)))"

text \<open>\<^verbatim>\<open>registerType\<close>: one \<^verbatim>\<open>types.set\<close> per descriptor, in argument order.\<close>

definition registerType1 :: "'f argumentType \<Rightarrow> 'f registry \<Rightarrow> 'f registry" where
  "registerType1 options st =
     logMsg (Debug (''Registered type: '' @ tname options))
       (st\<lparr>types := (types st)(tname options \<mapsto> options)\<rparr>)"

definition registerType :: "'f argumentType list \<Rightarrow> 'f registry \<Rightarrow> 'f registry" where
  "registerType ts st = fold registerType1 ts st"

text \<open>
  \<^verbatim>\<open>registerGroup\<close>, first loop: the path of a group is its parent's segments and its
  own name, all lower-cased.
\<close>

definition groupPath :: "groupOptions \<Rightarrow> path" where
  "groupPath g =
     (case goParent g of None \<Rightarrow> [] | Some ps \<Rightarrow> map lower ps) @ [lower (goName g)]"

definition buildGroups :: "groupOptions list \<Rightarrow> commandGroup list" where
  "buildGroups gs = map (\<lambda>g. newCommandGroup (groupPath g) g) gs"

text \<open>
  \<^verbatim>\<open>commandGroups.sort((a, b) => a.getPath().size() < b.getPath().size())\<close> is
  Luau's \<^verbatim>\<open>table.sort\<close>. It is not part of the repository and it is not stable, so it
  is a parameter \<open>tableSort\<close> of \<^verbatim>\<open>registerGroup\<close>. All that is taken of it is
  \<open>sortsGroups\<close>: its result is a rearrangement of its argument in which the path sizes
  ascend. The order of groups of equal size is left open.
\<close>

definition sortsGroups :: "(commandGroup list \<Rightarrow> commandGroup list) \<Rightarrow> bool" where
  "sortsGroups tableSort =
     (\<forall>gs. mset (tableSort gs) = mset gs
         \<and> sorted (map (\<lambda>g. size_path (gpath g)) (tableSort gs)))"

text \<open>Lines 240-243: store the group, cache its path, fire the signal, log.\<close>

definition storeGroup :: "commandGroup \<Rightarrow> 'f registry \<Rightarrow> 'f registry" where
  "storeGroup grp st =
     logMsg (Debug (''Registered group: '' @ toString (gpath grp)))
       (fire (GroupRegistered (gpath grp))
          (st\<lparr>groups := (groups st)(toString (gpath grp) \<mapsto> grp),
              cachedPaths := cachePath (gpath grp) (cachedPaths st)\<rparr>))"

text \<open>
  \<^verbatim>\<open>registerGroup\<close>, second loop. A missing parent ends the call (\<^verbatim>\<open>return\<close>); a
  duplicate child name skips the group (\<^verbatim>\<open>continue\<close>). \<^verbatim>\<open>parentGroup.addGroup\<close>
  mutates the object held under the parent's key.
\<close>

fun registerGroupLoop :: "commandGroup list \<Rightarrow> 'f registry \<Rightarrow> 'f registry" where
  "registerGroupLoop [] st = st"
| "registerGroupLoop (grp # rest) st =
     (let st1 = validatePath (gpath grp) False st;
          pathString = toString (gpath grp)
      in if size_path (gpath grp) > 1
         then
           (let parentPath = parent (gpath grp)
            in case groups st1 (toString parentPath) of
                 None \<Rightarrow>
                   logMsg (Error (''Parent group '' @ [CHR 0x27] @ toString parentPath @ [CHR 0x27]
                      @ '' for group '' @ [CHR 0x27] @ pathString @ [CHR 0x27]
                      @ '' is not registered'')) st1
               | Some parentGroup \<Rightarrow>
                   if hasGroup parentGroup (goName (goptions grp))
                   then registerGroupLoop rest
                          (logMsg (Warn (''Skipping duplicate child group in '' @ toString parentPath
                             @ '': '' @ goName (goptions grp))) st1)
                   else registerGroupLoop rest
                          (storeGroup grp
                             (st1\<lparr>groups := (groups st1)
                                (toString parentPath \<mapsto> addGroup parentGroup grp)\<rparr>)))
         else registerGroupLoop rest (storeGroup grp st1))"

definition registerGroup ::
  "(commandGroup list \<Rightarrow> commandGroup list) \<Rightarrow> groupOptions list \<Rightarrow>
     'f registry \<Rightarrow> 'f registry" where
  "registerGroup tableSort gs st = registerGroupLoop (tableSort (buildGroups gs)) st"

text \<open>\<^verbatim>\<open>addCommand\<close>, the loop body: validate, store, cache.\<close>

definition addCommandPath :: "command \<Rightarrow> path \<Rightarrow> 'f registry \<Rightarrow> 'f registry" where
  "addCommandPath c p st =
     (let st1 = validatePath p True st
      in st1\<lparr>commands := (commands st1)(toString p \<mapsto> c),
             cachedPaths := cachePath p (cachedPaths st1)\<rparr>)"

text \<open>
  \<^verbatim>\<open>addCommand(command, group?)\<close>. The group argument is an object of the
  \<^verbatim>\<open>groups\<close> map; the model names it by the key it is stored under.
\<close>

definition addCommand :: "command \<Rightarrow> string option \<Rightarrow> 'f registry \<Rightarrow> 'f registry" where
  "addCommand c grp st =
     (let st1 = fold (addCommandPath c) (getPaths c) st;
          st2 = (case grp of
                   None \<Rightarrow> st1
                 | Some k \<Rightarrow>
                     (case groups st1 k of
                        None \<Rightarrow> st1
                      | Some g \<Rightarrow> st1\<lparr>groups := (groups st1)(k \<mapsto> groupAddCommand g c)\<rparr>))
      in logMsg (Debug (''Registered command: '' @ toString (getPath c)))
           (fire (CommandRegistered c) st2))"

text \<open>
  \<^verbatim>\<open>createCommand\<close> and \<^verbatim>\<open>registerCommand\<close>. The command's name is lower-cased, the
  group path is taken as given and must be registered. The alias paths are what the
  missing \<^verbatim>\<open>ExecutableCommand\<close> constructor derives from the options; they are a
  parameter here. \<^verbatim>\<open>registerCommand\<close> passes no group object to \<^verbatim>\<open>addCommand\<close>.
\<close>

definition createCommand ::
  "string \<Rightarrow> path list \<Rightarrow> path option \<Rightarrow> 'f registry \<Rightarrow> string + command" where
  "createCommand name aliases grp st =
     (let commandPath = (case grp of None \<Rightarrow> [lower name] | Some g \<Rightarrow> g @ [lower name])
      in case grp of
           None \<Rightarrow> Inr \<lparr>cpath = commandPath, caliases = aliases\<rparr>
         | Some g \<Rightarrow>
             (case getGroup st g of
                None \<Rightarrow> Inl (''Cannot assign group '' @ [CHR 0x27] @ toString g @ [CHR 0x27]
                          @ '' to command '' @ [CHR 0x27] @ toString commandPath @ [CHR 0x27]
                          @ '' as it is not registered'')
              | Some _ \<Rightarrow> Inr \<lparr>cpath = commandPath, caliases = aliases\<rparr>))"

definition registerCommand ::
  "string \<Rightarrow> path list \<Rightarrow> path option \<Rightarrow> 'f registry \<Rightarrow> 'f registry outcome" where
  "registerCommand name aliases grp st =
     (case createCommand name aliases grp st of
        Inl msg \<Rightarrow> Threw msg st
      | Inr c \<Rightarrow> Returned (addCommand c None st))"

section \<open>Unregistration\<close>

text \<open>Lines 264-267: drop one path of the command from the map and the cache.\<close>

definition dropCommandPath :: "path \<Rightarrow> 'f registry \<Rightarrow> 'f registry" where
  "dropCommandPath p st =
     st\<lparr>commands := (commands st)(toString p := None),
        cachedPaths := uncachePath p (cachedPaths st)\<rparr>"

definition unregisterCommand :: "path \<Rightarrow> 'f registry \<Rightarrow> 'f registry outcome" where
  "unregisterCommand p st =
     (case getCommand st p of
        None \<Rightarrow> Threw (''Command is not registered: '' @ toString p) st
      | Some c \<Rightarrow>
          (let st1 = (case getGroup st (parent p) of
                        None \<Rightarrow> st
                      | Some grp \<Rightarrow>
                          st\<lparr>groups := (groups st)(toString (parent p) \<mapsto> removeCommand grp c)\<rparr>);
               st2 = fold dropCommandPath (getPaths c) st1
           in Returned (logMsg (Debug (''Unregistered command: '' @ toString (getPath c)))
                          (fire (CommandUnregistered c) st2))))"

text \<open>
  A \<^verbatim>\<open>for\<close> loop whose body may be halted by an assertion: the first failure ends the
  loop and keeps the state reached. \<open>None\<close> is a body that did not finish.
\<close>

fun forEach :: "('a \<Rightarrow> 's \<Rightarrow> 's outcome option) \<Rightarrow> 'a list \<Rightarrow> 's \<Rightarrow> 's outcome option" where
  "forEach body [] st = Some (Returned st)"
| "forEach body (x # xs) st =
     (case body x st of
        None \<Rightarrow> None
      | Some (Threw msg st') \<Rightarrow> Some (Threw msg st')
      | Some (Returned st') \<Rightarrow> forEach body xs st')"

text \<open>
  \<^verbatim>\<open>unregisterGroup\<close> calls itself on every child group. The first argument bounds
  the depth of these calls; \<open>None\<close> means the bound was too small.
\<close>

primrec unregisterGroup :: "nat \<Rightarrow> path \<Rightarrow> 'f registry \<Rightarrow> 'f registry outcome option" where
  "unregisterGroup 0 = (\<lambda>p st. None)"
| "unregisterGroup (Suc n) = (\<lambda>p st.
     case getGroup st p of
       None \<Rightarrow> Some (Threw (''Group is not registered: '' @ toString p) st)
     | Some grp \<Rightarrow>
         (let st1 = (case getGroup st (parent p) of
                       None \<Rightarrow> st
                     | Some parentGroup \<Rightarrow>
                         st\<lparr>groups := (groups st)
                            (toString (parent p) \<mapsto> removeGroup parentGroup grp)\<rparr>)
          in case forEach (\<lambda>c s. Some (unregisterCommand (getPath c) s)) (getCommands grp) st1 of
               None \<Rightarrow> None
             | Some (Threw msg st2) \<Rightarrow> Some (Threw msg st2)
             | Some (Returned st2) \<Rightarrow>
                 (case forEach (unregisterGroup n) (getGroups grp) st2 of
                    None \<Rightarrow> None
                  | Some (Threw msg st3) \<Rightarrow> Some (Threw msg st3)
                  | Some (Returned st3) \<Rightarrow>
                      Some (Returned
                        (logMsg (Debug (''Unregistered group: '' @ toString (gpath grp)))
                          (fire (GroupUnregistered (gpath grp))
                            (st3\<lparr>groups := (groups st3)(toString p := None),
                                 cachedPaths := uncachePath p (cachedPaths st3)\<rparr>)))))))"

section \<open>The server dispatcher\<close>

text \<open>
  \<^verbatim>\<open>src/server/dispatcher.ts\<close>. A promise that has settled is either resolved with a
  value or rejected with an error, rendered as text.
\<close>

datatype 'a promise = Resolved 'a | Rejected string

text \<open>
  Modelled from the spec: \<^verbatim>\<open>CommandInteraction\<close> is missing. It carries the executor
  (by name), the raw text and the reply: success flag, reply text and reply time, unset
  until a reply is made. \<^verbatim>\<open>error(message)\<close> replies with failure.
\<close>

record commandInteraction =
  iExecutor :: string
  iText :: string
  replySuccess :: "bool option"
  replyText :: "string option"
  replyTime :: "nat option"

definition newCommandInteraction :: "string \<Rightarrow> string \<Rightarrow> commandInteraction" where
  "newCommandInteraction executor t =
     \<lparr>iExecutor = executor, iText = t, replySuccess = None, replyText = None, replyTime = None\<rparr>"

definition error :: "string \<Rightarrow> nat \<Rightarrow> commandInteraction \<Rightarrow> commandInteraction" where
  "error message now i =
     i\<lparr>replySuccess := Some False, replyText := Some message, replyTime := Some now\<rparr>"

text \<open>\<^verbatim>\<open>handleError\<close>: the warning it prints.\<close>

definition handleError :: "string \<Rightarrow> string \<Rightarrow> string \<Rightarrow> string" where
  "handleError executor t err =
     executor @ '' tried to run '' @ [CHR 0x27] @ t @ [CHR 0x27]
       @ '' but an error occurred: '' @ err"

text \<open>
  \<^verbatim>\<open>run\<close>. \<^verbatim>\<open>executeCommand\<close> belongs to the missing \<^verbatim>\<open>BaseDispatcher\<close>; it is a
  parameter giving the settled promise of a call. The result is the settled promise of
  \<^verbatim>\<open>run\<close> and the warnings printed; \<open>now\<close> is the clock.
\<close>

definition run ::
  "(path \<Rightarrow> string \<Rightarrow> string \<Rightarrow> commandInteraction promise) \<Rightarrow> nat \<Rightarrow>
     path \<Rightarrow> string \<Rightarrow> string option \<Rightarrow> commandInteraction promise \<times> string list" where
  "run executeCommand now p executor textArg =
     (let t = (case textArg of None \<Rightarrow> [] | Some x \<Rightarrow> x)
      in case executeCommand p executor t of
           Resolved interaction \<Rightarrow> (Resolved interaction, [])
         | Rejected err \<Rightarrow>
             (Resolved (error ''An error occurred.'' now (newCommandInteraction executor t)),
              [handleError executor t err]))"

section \<open>Example registries\<close>

text \<open>
  The examples take the sort as an argument, like \<^verbatim>\<open>registerGroup\<close>; every batch in
  them is a single group.
\<close>

definition groupOpts :: "string \<Rightarrow> string list option \<Rightarrow> groupOptions" where
  "groupOpts n p = \<lparr>goName = n, goParent = p\<rparr>"

text \<open>A fresh registry with the group \<^verbatim>\<open>a\<close> only.\<close>

definition registryA :: "(commandGroup list \<Rightarrow> commandGroup list) \<Rightarrow> unit registry" where
  "registryA tableSort = registerGroup tableSort [groupOpts ''a'' None] emptyRegistry"

text \<open>A fresh registry with the groups \<^verbatim>\<open>a\<close>, \<^verbatim>\<open>a/b\<close> and \<^verbatim>\<open>a/c\<close>, one call each.\<close>

definition registryABC :: "(commandGroup list \<Rightarrow> commandGroup list) \<Rightarrow> unit registry" where
  "registryABC tableSort =
     registerGroup tableSort [groupOpts ''c'' (Some [''a''])]
       (registerGroup tableSort [groupOpts ''b'' (Some [''a''])]
          (registerGroup tableSort [groupOpts ''a'' None] emptyRegistry))"

text \<open>A fresh registry with the groups \<^verbatim>\<open>a\<close>, \<^verbatim>\<open>a/b\<close>, \<^verbatim>\<open>a/b/c\<close> and \<^verbatim>\<open>a/b/d\<close>.\<close>

definition registryDeep :: "(commandGroup list \<Rightarrow> commandGroup list) \<Rightarrow> unit registry" where
  "registryDeep tableSort =
     registerGroup tableSort [groupOpts ''d'' (Some [''a'', ''b''])]
       (registerGroup tableSort [groupOpts ''c'' (Some [''a'', ''b''])]
          (registerGroup tableSort [groupOpts ''b'' (Some [''a''])]
             (registerGroup tableSort [groupOpts ''a'' None] emptyRegistry)))"

text \<open>A fresh registry with the groups \<^verbatim>\<open>a\<close> and \<^verbatim>\<open>a/q\<close>.\<close>

definition registryAQ :: "(commandGroup list \<Rightarrow> commandGroup list) \<Rightarrow> unit registry" where
  "registryAQ tableSort =
     registerGroup tableSort [groupOpts ''q'' (Some [''a''])]
       (registerGroup tableSort [groupOpts ''a'' None] emptyRegistry)"

text \<open>A command under the group \<^verbatim>\<open>a\<close> with primary path \<^verbatim>\<open>a/x\<close> and alias \<^verbatim>\<open>a/y\<close>.\<close>

definition commandXY :: command where
  "commandXY = \<lparr>cpath = [''a'', ''x''], caliases = [[''a'', ''y'']]\<rparr>"

text \<open>
  The index the specification asks the cache to equal: the one obtained by walking the
  registered paths again, starting from nothing.
\<close>

definition rebuildCache :: "path list \<Rightarrow> cache" where
  "rebuildCache ps = fold cachePath ps Map.empty"


section \<open>The sort of a batch\<close>

text \<open>
  An insertion sort by path size is one sort that \<open>sortsGroups\<close> admits. Where no two
  groups of a batch have the same path size, every admitted sort gives the same order.
\<close>

lemma sortsGroups_sort_key: "sortsGroups (sort_key (\<lambda>g. size_path (gpath g)))"
  by (simp add: sortsGroups_def)

lemma sortsGroups_mset: "sortsGroups tableSort \<Longrightarrow> mset (tableSort gs) = mset gs"
  by (simp add: sortsGroups_def)

lemma sortsGroups_set: "sortsGroups tableSort \<Longrightarrow> set (tableSort gs) = set gs"
  using sortsGroups_mset [of tableSort gs] by (rule mset_eq_setD)


lemma sortsGroups_sorted:
  "sortsGroups tableSort \<Longrightarrow> sorted (map (\<lambda>g. size_path (gpath g)) (tableSort gs))"
  by (simp add: sortsGroups_def)

lemma sorted_rearrangement_unique:
  fixes f :: "'a \<Rightarrow> nat"
  assumes ms: "mset ys = mset xs" and ys: "sorted (map f ys)"
    and zs: "mset zs = mset xs" and zs': "sorted (map f zs)"
    and d: "distinct (map f xs)"
  shows "ys = zs"
proof -
  have my: "mset (map f ys) = mset (map f xs)"
    using ms by simp
  have mz: "mset (map f zs) = mset (map f xs)"
    using zs by simp
  have dy: "distinct (map f ys)"
    using mset_eq_imp_distinct_iff [OF my] d by simp
  have dz: "distinct (map f zs)"
    using mset_eq_imp_distinct_iff [OF mz] d by simp
  have se: "set (map f ys) = set (map f zs)"
    using mset_eq_setD [OF my] mset_eq_setD [OF mz] by simp
  have eq: "map f ys = map f zs"
    using ys dy zs' dz se by (rule sorted_distinct_set_unique)
  have "set ys = set xs" and "set zs = set xs"
    using ms zs by (auto dest: mset_eq_setD)
  moreover have "inj_on f (set xs)"
    using d by (simp add: distinct_map)
  ultimately have "inj_on f (set ys \<union> set zs)" by simp
  then show ?thesis using eq by (simp add: inj_on_map_eq_map)
qed

lemma registerGroup_tie_free:
  assumes "sortsGroups tableSort"
    and "distinct (map (\<lambda>g. size_path (groupPath g)) gs)"
  shows "registerGroup tableSort gs st
           = registerGroup (sort_key (\<lambda>g. size_path (gpath g))) gs st"
proof -
  let ?f = "\<lambda>g. size_path (gpath g)"
  have "map ?f (buildGroups gs) = map (\<lambda>g. size_path (groupPath g)) gs"
    by (simp add: buildGroups_def newCommandGroup_def)
  then have d: "distinct (map ?f (buildGroups gs))"
    using assms(2) by simp
  have "tableSort (buildGroups gs) = sort_key ?f (buildGroups gs)"
    using sortsGroups_mset [OF assms(1)] sortsGroups_sorted [OF assms(1)] _ _ d
    by (rule sorted_rearrangement_unique) simp_all
  then show ?thesis by (simp add: registerGroup_def)
qed

lemma registryA_any_sort:
  "sortsGroups tableSort \<Longrightarrow> registryA tableSort = registryA (sort_key (\<lambda>g. size_path (gpath g)))"
  by (simp add: registryA_def registerGroup_tie_free)

lemma registryAQ_any_sort:
  "sortsGroups tableSort \<Longrightarrow> registryAQ tableSort = registryAQ (sort_key (\<lambda>g. size_path (gpath g)))"
  by (simp add: registryAQ_def registerGroup_tie_free)

lemma registryABC_any_sort:
  "sortsGroups tableSort \<Longrightarrow> registryABC tableSort = registryABC (sort_key (\<lambda>g. size_path (gpath g)))"
  by (simp add: registryABC_def registerGroup_tie_free)

lemma registryDeep_any_sort:
  "sortsGroups tableSort \<Longrightarrow> registryDeep tableSort = registryDeep (sort_key (\<lambda>g. size_path (gpath g)))"
  by (simp add: registryDeep_def registerGroup_tie_free)

section \<open>Argument types: the last registration of a name wins\<close>

lemma find_snoc:
  "find P (xs @ [x]) =
     (case find P xs of Some y \<Rightarrow> Some y | None \<Rightarrow> if P x then Some x else None)"
  by (induction xs) auto

lemma types_registerType1:
  "types (registerType1 d st) n = (if tname d = n then Some d else types st n)"
  by (simp add: registerType1_def logMsg_def)

lemma types_fold_registerType1:
  "types (fold registerType1 ds st) n =
     (case find (\<lambda>d. tname d = n) (rev ds) of Some d \<Rightarrow> Some d | None \<Rightarrow> types st n)"
proof (induction ds arbitrary: st)
  case Nil
  show ?case by simp
next
  case (Cons d ds)
  show ?case
    by (simp add: Cons.IH find_snoc types_registerType1 split: option.split)
qed

lemma fold_registerType:
  "fold registerType calls st = fold registerType1 (concat calls) st"
  by (induction calls arbitrary: st) (simp_all add: registerType_def)

text \<open>
  Claim C8. After any sequence of \<^verbatim>\<open>registerType\<close> calls, \<^verbatim>\<open>getType(n)\<close> is the
  descriptor named \<open>n\<close> that was supplied last (the last one in the calls' arguments,
  read in call order); when no call supplied a descriptor named \<open>n\<close>, the lookup is
  what it was before the calls, which is undefined for a fresh registry.
\<close>

theorem registerType_last_write_wins:
  "getType (fold registerType calls st) n =
     (case find (\<lambda>d. tname d = n) (rev (concat calls)) of
        Some d \<Rightarrow> Some d
      | None \<Rightarrow> getType st n)"
  unfolding getType_def by (simp add: fold_registerType types_fold_registerType1)

section \<open>Groups of one call are registered by depth\<close>



lemma fired_validatePath [simp]: "fired (validatePath p b st) = fired st"
  by (simp add: validatePath_def logMsg_def Let_def)

lemma fired_logMsg [simp]: "fired (logMsg e st) = fired st"
  by (simp add: logMsg_def)


lemma groups_validatePath [simp]: "groups (validatePath p b st) = groups st"
  by (simp add: validatePath_def logMsg_def Let_def)

lemma groups_logMsg [simp]: "groups (logMsg e st) = groups st"
  by (simp add: logMsg_def)


















section \<open>Child lookups ignore letter case\<close>

text \<open>
  \<^verbatim>\<open>getChildPaths\<close> lower-cases the canonical string of its argument before the lookup,
  and \<^verbatim>\<open>registerGroup\<close> writes cache entries under lower-cased keys only. So two query
  paths that differ in letter case only get the same list, and a query that is a
  registered group's path up to letter case gets the list stored under that group's key.
\<close>

lemma lowerChar_idem: "lowerChar (lowerChar c) = lowerChar c"
  by (simp add: lowerChar_def Let_def)

lemma lower_idem: "lower (lower s) = lower s"
  by (simp add: lower_def lowerChar_idem)

lemma lower_append: "lower (a @ b) = lower a @ lower b"
  by (simp add: lower_def)

lemma lower_slash: "lower ''/'' = ''/''"
  by (simp add: lower_def lowerChar_def)

lemma lower_toString: "lower (toString p) = toString (map lower p)"
proof (induction p rule: toString.induct)
  case 1
  show ?case by (simp add: lower_def)
next
  case (2 p)
  show ?case by simp
next
  case (3 p q ps)
  have "lower (toString (p # q # ps)) = lower p @ lower ''/'' @ lower (toString (q # ps))"
    by (simp only: toString.simps lower_append)
  then show ?case using 3 by (simp only: lower_slash toString.simps list.map)
qed

lemma lower_ROOT_KEY: "lower ROOT_KEY = ROOT_KEY"
  by (simp add: ROOT_KEY_def lower_def lowerChar_def)

lemma groupPath_lower: "map lower (groupPath g) = groupPath g"
  by (simp add: groupPath_def lower_idem split: option.split)

lemma slice_lower: "map lower p = p \<Longrightarrow> map lower (slice p 0 i) = slice p 0 i"
  by (simp add: slice_def take_map [symmetric])

lemma cachePathLoop_keys:
  "map lower p = p \<Longrightarrow> lower key = key \<Longrightarrow> cachePathLoop p is key c k \<noteq> c k \<Longrightarrow> lower k = k"
proof (induction "is" arbitrary: key c)
  case Nil
  then show ?case by simp
next
  case (Cons i "is")
  have key': "lower (toString (slice p 0 i)) = toString (slice p 0 i)"
    using Cons.prems(1) by (simp add: lower_toString slice_lower)
  define cache where "cache = (case c key of None \<Rightarrow> [] | Some l \<Rightarrow> l)"
  define c2 where "c2 = (if list_ex (\<lambda>val. equals val (slice p 0 i)) cache then c(key \<mapsto> cache)
                         else c(key \<mapsto> sortByTail (cache @ [slice p 0 i])))"
  have run: "cachePathLoop p (i # is) key c = cachePathLoop p is (toString (slice p 0 i)) c2"
    by (simp add: c2_def cache_def Let_def)
  have same: "c2 k = c k" if "k \<noteq> key"
    using that by (simp add: c2_def)
  show ?case
  proof (cases "k = key")
    case True
    then show ?thesis using Cons.prems(2) by simp
  next
    case False
    then have "cachePathLoop p is (toString (slice p 0 i)) c2 k \<noteq> c2 k"
      using Cons.prems(3) run same by simp
    then show ?thesis by (rule Cons.IH [OF Cons.prems(1) key'])
  qed
qed

lemma cachePath_keys:
  "map lower p = p \<Longrightarrow> cachePath p c k \<noteq> c k \<Longrightarrow> lower k = k"
  unfolding cachePath_def by (rule cachePathLoop_keys [OF _ lower_ROOT_KEY])

lemma cachedPaths_validatePath [simp]: "cachedPaths (validatePath p b st) = cachedPaths st"
  by (simp add: validatePath_def logMsg_def Let_def)

lemma cachedPaths_logMsg [simp]: "cachedPaths (logMsg e st) = cachedPaths st"
  by (simp add: logMsg_def)

lemma cachedPaths_storeGroup:
  "cachedPaths (storeGroup g st) = cachePath (gpath g) (cachedPaths st)"
  by (simp add: storeGroup_def fire_def)

lemma registerGroupLoop_keys:
  "\<forall>g \<in> set xs. map lower (gpath g) = gpath g \<Longrightarrow>
     cachedPaths (registerGroupLoop xs (st :: 'f registry)) k \<noteq> cachedPaths st k \<Longrightarrow> lower k = k"
proof (induction xs arbitrary: st)
  case Nil
  then show ?case by simp
next
  case (Cons g xs)
  have g: "map lower (gpath g) = gpath g" and xs: "\<forall>g \<in> set xs. map lower (gpath g) = gpath g"
    using Cons.prems(1) by simp_all
  have step: "lower k = k"
    if "cachedPaths (registerGroupLoop xs (storeGroup g s)) k \<noteq> cachedPaths st k"
      and "cachedPaths s = cachedPaths st" for s :: "'f registry"
  proof (cases "cachedPaths (registerGroupLoop xs (storeGroup g s)) k = cachedPaths (storeGroup g s) k")
    case True
    with that show ?thesis using cachePath_keys [OF g] by (simp add: cachedPaths_storeGroup)
  next
    case False
    then show ?thesis by (rule Cons.IH [OF xs])
  qed
  have skip: "lower k = k"
    if "cachedPaths (registerGroupLoop xs s) k \<noteq> cachedPaths st k"
      and "cachedPaths s = cachedPaths st" for s :: "'f registry"
    using that Cons.IH [OF xs, of s] by simp
  from Cons.prems(2) show ?case
    by (auto simp: Let_def split: if_splits option.splits intro: step skip)
qed

lemma registerGroup_keys:
  assumes "sortsGroups tableSort"
  shows "cachedPaths (registerGroup tableSort gs st) k \<noteq> cachedPaths st k \<Longrightarrow> lower k = k"
  unfolding registerGroup_def
  by (rule registerGroupLoop_keys [rotated])
     (auto simp: sortsGroups_set [OF assms] buildGroups_def newCommandGroup_def groupPath_lower)

lemma getChildPaths_same_up_to_case:
  "map lower q = map lower p \<Longrightarrow> getChildPaths st q = getChildPaths st p"
  by (simp add: getChildPaths_def lower_toString)

lemma getChildPaths_of_group:
  "map lower q = groupPath g \<Longrightarrow>
     getChildPaths st q
       = (case cachedPaths st (toString (groupPath g)) of None \<Rightarrow> [] | Some ps \<Rightarrow> ps)"
  by (simp add: getChildPaths_def lower_toString)

lemma getChildPaths_no_entry:
  "cachedPaths st (lower (toString q)) = None \<Longrightarrow> getChildPaths st q = []"
  by (simp add: getChildPaths_def)

section \<open>What registration and unregistration do establish\<close>

text \<open>
  \<^verbatim>\<open>cachePath\<close> leaves the path listed under its parent's key (the root key for a
  single segment), up to \<^verbatim>\<open>equals\<close>, and never takes an entry away. So a group
  registered by \<^verbatim>\<open>registerGroup\<close> is among the children that \<^verbatim>\<open>getChildPaths\<close> or
  \<^verbatim>\<open>getRootPaths\<close> report for its parent, and so is every path of a command after
  \<^verbatim>\<open>addCommand\<close>.
\<close>

lemma cachePathLoop_snoc:
  "cachePathLoop p (is @ [i]) key c =
     cachePathLoop p [i] (if is = [] then key else toString (slice p 0 (last is)))
       (cachePathLoop p is key c)"
proof (induction "is" arbitrary: key c)
  case Nil
  show ?case by simp
next
  case (Cons j "is")
  define cache where "cache = (case c key of None \<Rightarrow> [] | Some l \<Rightarrow> l)"
  define c2 where "c2 = (if list_ex (\<lambda>val. equals val (slice p 0 j)) cache then c(key \<mapsto> cache)
                         else c(key \<mapsto> sortByTail (cache @ [slice p 0 j])))"
  have step: "cachePathLoop p (j # js) key c = cachePathLoop p js (toString (slice p 0 j)) c2" for js
    by (simp add: c2_def cache_def Let_def)
  have "cachePathLoop p ((j # is) @ [i]) key c
          = cachePathLoop p (is @ [i]) (toString (slice p 0 j)) c2"
    using step [of "is @ [i]"] by simp
  also have "\<dots> = cachePathLoop p [i]
        (if is = [] then toString (slice p 0 j) else toString (slice p 0 (last is)))
        (cachePathLoop p is (toString (slice p 0 j)) c2)"
    by (rule Cons.IH)
  also have "\<dots> = cachePathLoop p [i]
        (if j # is = [] then key else toString (slice p 0 (last (j # is))))
        (cachePathLoop p (j # is) key c)"
    by (simp only: step [of "is"]) simp
  finally show ?case .
qed

lemma list_ex_sortByTail: "list_ex P (sortByTail xs) = list_ex P xs"
  by (simp add: sortByTail_def list_ex_iff)

lemma cachePathLoop_single:
  "list_ex (\<lambda>v. equals v (slice p 0 i))
     (case cachePathLoop p [i] key c key of None \<Rightarrow> [] | Some ps \<Rightarrow> ps)"
  by (simp add: Let_def list_ex_sortByTail equals_def)

lemma cachePath_lists_path:
  assumes "p \<noteq> []"
  shows "list_ex (\<lambda>v. equals v p)
           (case cachePath p c (if size_path p = 1 then ROOT_KEY else toString (parent p)) of
              None \<Rightarrow> [] | Some ps \<Rightarrow> ps)"
proof -
  obtain n where n: "length p = Suc n"
    using assms by (cases p) auto
  have whole: "slice p 0 n = p"
    using n by (simp add: slice_def)
  have key: "(if [0 ..< n] = [] then ROOT_KEY else toString (slice p 0 (last [0 ..< n])))
               = (if size_path p = 1 then ROOT_KEY else toString (parent p))"
  proof (cases n)
    case 0
    then show ?thesis using n by (simp add: size_path_def)
  next
    case (Suc m)
    then have "slice p 0 (last [0 ..< n]) = butlast p"
      using n by (simp add: slice_def butlast_conv_take)
    then show ?thesis using Suc n by (simp add: size_path_def parent_def)
  qed
  have "cachePath p c = cachePathLoop p ([0 ..< n] @ [n]) ROOT_KEY c"
    using n by (simp add: cachePath_def size_path_def)
  then have "cachePath p c =
      cachePathLoop p [n] (if size_path p = 1 then ROOT_KEY else toString (parent p))
        (cachePathLoop p [0 ..< n] ROOT_KEY c)"
    by (simp only: cachePathLoop_snoc key)
  then show ?thesis
    using cachePathLoop_single [of p n "if size_path p = 1 then ROOT_KEY else toString (parent p)"
        "cachePathLoop p [0 ..< n] ROOT_KEY c"]
    by (simp only: whole)
qed

lemma cachedPaths_registerGroup_single:
  assumes "sortsGroups tableSort"
    and "size_path (groupPath g) = 1
     \<or> (\<exists>pg. groups st (toString (parent (groupPath g))) = Some pg \<and> \<not> hasGroup pg (goName g))"
  shows "cachedPaths (registerGroup tableSort [g] st) = cachePath (groupPath g) (cachedPaths st)"
proof -
  have "registerGroup tableSort [g] st
          = registerGroup (sort_key (\<lambda>g. size_path (gpath g))) [g] st"
    using assms(1) by (rule registerGroup_tie_free) simp
  then show ?thesis
    using assms(2)
    by (auto simp: registerGroup_def buildGroups_def newCommandGroup_def Let_def
          cachedPaths_storeGroup)
qed

lemma parent_lower: "map lower p = p \<Longrightarrow> lower (toString (parent p)) = toString (parent p)"
  by (simp add: lower_toString parent_def map_butlast)

lemma registerGroup_lists_group:
  assumes "sortsGroups tableSort"
    and "size_path (groupPath g) = 1
     \<or> (\<exists>pg. groups st (toString (parent (groupPath g))) = Some pg \<and> \<not> hasGroup pg (goName g))"
  shows "list_ex (\<lambda>v. equals v (groupPath g))
           (if size_path (groupPath g) = 1 then getRootPaths (registerGroup tableSort [g] st)
            else getChildPaths (registerGroup tableSort [g] st) (parent (groupPath g)))"
proof -
  have ne: "groupPath g \<noteq> []"
    by (simp add: groupPath_def)
  show ?thesis
    using cachePath_lists_path [OF ne, of "cachedPaths st"]
    by (simp add: getRootPaths_def getChildPaths_def cachedPaths_registerGroup_single [OF assms]
          parent_lower [OF groupPath_lower] split: if_splits)
qed

lemma cachePathLoop_keeps:
  "list_ex P (case c k of None \<Rightarrow> [] | Some ps \<Rightarrow> ps) \<Longrightarrow>
     list_ex P (case cachePathLoop q is key c k of None \<Rightarrow> [] | Some ps \<Rightarrow> ps)"
proof (induction "is" arbitrary: key c)
  case Nil
  then show ?case by simp
next
  case (Cons j "is")
  define cache where "cache = (case c key of None \<Rightarrow> [] | Some l \<Rightarrow> l)"
  define c2 where "c2 = (if list_ex (\<lambda>val. equals val (slice q 0 j)) cache then c(key \<mapsto> cache)
                         else c(key \<mapsto> sortByTail (cache @ [slice q 0 j])))"
  have step: "cachePathLoop q (j # is) key c = cachePathLoop q is (toString (slice q 0 j)) c2"
    by (simp add: c2_def cache_def Let_def)
  have "list_ex P (case c2 k of None \<Rightarrow> [] | Some ps \<Rightarrow> ps)"
    using Cons.prems by (auto simp: c2_def cache_def list_ex_sortByTail)
  then show ?case
    unfolding step by (rule Cons.IH)
qed

lemma cachePath_keeps:
  "list_ex P (case c k of None \<Rightarrow> [] | Some ps \<Rightarrow> ps) \<Longrightarrow>
     list_ex P (case cachePath q c k of None \<Rightarrow> [] | Some ps \<Rightarrow> ps)"
  unfolding cachePath_def by (rule cachePathLoop_keeps)

lemma cachedPaths_addCommandPath:
  "cachedPaths (addCommandPath c p st) = cachePath p (cachedPaths st)"
  by (simp add: addCommandPath_def Let_def)

lemma fold_addCommandPath_keeps:
  "list_ex P (case cachedPaths st k of None \<Rightarrow> [] | Some ps \<Rightarrow> ps) \<Longrightarrow>
     list_ex P (case cachedPaths (fold (addCommandPath c) qs st) k of None \<Rightarrow> [] | Some ps \<Rightarrow> ps)"
  by (induction qs arbitrary: st) (simp_all add: cachedPaths_addCommandPath cachePath_keeps)

lemma fold_addCommandPath_lists:
  "p \<in> set qs \<Longrightarrow> p \<noteq> [] \<Longrightarrow>
     list_ex (\<lambda>v. equals v p)
       (case cachedPaths (fold (addCommandPath c) qs st)
               (if size_path p = 1 then ROOT_KEY else toString (parent p)) of
          None \<Rightarrow> [] | Some ps \<Rightarrow> ps)"
proof (induction qs arbitrary: st)
  case Nil
  then show ?case by simp
next
  case (Cons q qs)
  show ?case
  proof (cases "p = q")
    case True
    have "list_ex (\<lambda>v. equals v p)
       (case cachedPaths (addCommandPath c q st)
               (if size_path p = 1 then ROOT_KEY else toString (parent p)) of
          None \<Rightarrow> [] | Some ps \<Rightarrow> ps)"
      using cachePath_lists_path [OF Cons.prems(2), of "cachedPaths st"] True
      by (simp only: cachedPaths_addCommandPath)
    then show ?thesis
      by (simp only: fold_simps fold_addCommandPath_keeps)
  next
    case False
    then have "p \<in> set qs" using Cons.prems(1) by simp
    then show ?thesis
      using Cons.IH [OF _ Cons.prems(2)] by simp
  qed
qed

lemma cachedPaths_addCommand:
  "cachedPaths (addCommand c grp st) = cachedPaths (fold (addCommandPath c) (getPaths c) st)"
  by (simp add: addCommand_def Let_def logMsg_def fire_def split: option.split)

lemma addCommand_lists_paths:
  "p \<in> set (getPaths c) \<Longrightarrow> p \<noteq> [] \<Longrightarrow>
     list_ex (\<lambda>v. equals v p)
       (case cachedPaths (addCommand c grp st)
               (if size_path p = 1 then ROOT_KEY else toString (parent p)) of
          None \<Rightarrow> [] | Some ps \<Rightarrow> ps)"
  unfolding cachedPaths_addCommand by (rule fold_addCommandPath_lists)

text \<open>
  \<^verbatim>\<open>unregisterCommand\<close> is halted by its assertion exactly when the path is not a key
  of the \<^verbatim>\<open>commands\<close> map, and then nothing has changed.
\<close>

lemma unregisterCommand_throws_iff:
  "(\<exists>msg s. unregisterCommand p st = Threw msg s) \<longleftrightarrow> getCommand st p = None"
  by (simp add: unregisterCommand_def Let_def split: option.split)

lemma unregisterCommand_throw_keeps_state:
  "unregisterCommand p st = Threw msg s \<Longrightarrow> s = st"
  by (simp add: unregisterCommand_def Let_def split: option.splits)

section \<open>The dispatcher resolves every settled call\<close>

text \<open>
  Claim C5. \<^verbatim>\<open>run\<close> never rejects: whatever \<^verbatim>\<open>executeCommand\<close> settles to, the
  promise of \<^verbatim>\<open>run\<close> is resolved with one interaction. When \<^verbatim>\<open>executeCommand\<close>
  rejects with a fault, the result is fixed in full: the interaction carries the executor
  and the text of the call, success false, the reply text \<^verbatim>\<open>An error occurred.\<close> and the
  time of the reply, and nothing of the fault; and exactly one warning is printed, which
  names the executor, the text and the fault. When \<^verbatim>\<open>executeCommand\<close> resolves, its
  interaction is passed on and nothing is printed.
\<close>

theorem run_always_resolves:
  "(\<exists>i. fst (run executeCommand now p executor textArg) = Resolved i)
   \<and> (\<forall>err. executeCommand p executor (case textArg of None \<Rightarrow> [] | Some x \<Rightarrow> x)
               = Rejected err \<longrightarrow>
        run executeCommand now p executor textArg
          = (Resolved \<lparr>iExecutor = executor,
                       iText = (case textArg of None \<Rightarrow> [] | Some x \<Rightarrow> x),
                       replySuccess = Some False,
                       replyText = Some ''An error occurred.'',
                       replyTime = Some now\<rparr>,
             [executor @ '' tried to run '' @ [CHR 0x27]
                @ (case textArg of None \<Rightarrow> [] | Some x \<Rightarrow> x) @ [CHR 0x27]
                @ '' but an error occurred: '' @ err]))
   \<and> (\<forall>i. executeCommand p executor (case textArg of None \<Rightarrow> [] | Some x \<Rightarrow> x)
             = Resolved i \<longrightarrow>
        run executeCommand now p executor textArg = (Resolved i, []))"
  by (cases "executeCommand p executor (case textArg of None \<Rightarrow> [] | Some x \<Rightarrow> x)")
     (simp_all add: run_def error_def newCommandInteraction_def handleError_def Let_def)

theorem run_always_resolves_witness:
  "(\<lambda>p executor t. Rejected (''boom: '' @ t)) [''kick''] ''Bob'' ''kick x''
     = (Rejected ''boom: kick x'' :: commandInteraction promise)
   \<and> run (\<lambda>p executor t. Rejected (''boom: '' @ t)) 7 [''kick''] ''Bob'' (Some ''kick x'')
       = (Resolved \<lparr>iExecutor = ''Bob'', iText = ''kick x'', replySuccess = Some False,
                    replyText = Some ''An error occurred.'', replyTime = Some 7\<rparr>,
          [''Bob tried to run '' @ [CHR 0x27] @ ''kick x'' @ [CHR 0x27]
             @ '' but an error occurred: boom: kick x''])
   \<and> run (\<lambda>p executor t. Rejected (''boom: '' @ t)) 7 [''kick''] ''Bob'' None
       = (Resolved \<lparr>iExecutor = ''Bob'', iText = [], replySuccess = Some False,
                    replyText = Some ''An error occurred.'', replyTime = Some 7\<rparr>,
          [''Bob tried to run '' @ [CHR 0x27] @ [CHR 0x27]
             @ '' but an error occurred: boom: ''])"
proof -
  have a: "(\<lambda>p executor t. Rejected (''boom: '' @ t)) [''kick''] ''Bob'' ''kick x''
     = (Rejected ''boom: kick x'' :: commandInteraction promise)"
    by simp
  have b: "run (\<lambda>p executor t. Rejected (''boom: '' @ t)) 7 [''kick''] ''Bob'' (Some ''kick x'')
       = (Resolved \<lparr>iExecutor = ''Bob'', iText = ''kick x'', replySuccess = Some False,
                    replyText = Some ''An error occurred.'', replyTime = Some 7\<rparr>,
          [''Bob tried to run '' @ [CHR 0x27] @ ''kick x'' @ [CHR 0x27]
             @ '' but an error occurred: boom: kick x''])"
    using run_always_resolves
      [of "\<lambda>p executor t. Rejected (''boom: '' @ t)" 7 "[''kick'']" "''Bob''" "Some ''kick x''"]
    by simp
  have c: "run (\<lambda>p executor t. Rejected (''boom: '' @ t)) 7 [''kick''] ''Bob'' None
       = (Resolved \<lparr>iExecutor = ''Bob'', iText = [], replySuccess = Some False,
                    replyText = Some ''An error occurred.'', replyTime = Some 7\<rparr>,
          [''Bob tried to run '' @ [CHR 0x27] @ [CHR 0x27]
             @ '' but an error occurred: boom: ''])"
    using run_always_resolves
      [of "\<lambda>p executor t. Rejected (''boom: '' @ t)" 7 "[''kick'']" "''Bob''" None]
    by simp
  from a b c show ?thesis by (intro conjI)
qed

section \<open>Unregistration and the cache\<close>

text \<open>
  Claim C1. The cache should always be the index obtained by walking the registered
  paths again. Register the groups \<^verbatim>\<open>a\<close>, \<^verbatim>\<open>a/b\<close>, \<^verbatim>\<open>a/b/c\<close> and \<^verbatim>\<open>a/b/d\<close>,
  then unregister \<^verbatim>\<open>a/b/d\<close>: \<^verbatim>\<open>uncachePath\<close> also takes \<^verbatim>\<open>a\<close> out of the root list
  and \<^verbatim>\<open>a/b\<close> out of the list of \<^verbatim>\<open>a\<close>, and deletes both keys. The groups \<^verbatim>\<open>a\<close>,
  \<^verbatim>\<open>a/b\<close> and \<^verbatim>\<open>a/b/c\<close> are still registered, but the prefix \<^verbatim>\<open>a\<close> of \<^verbatim>\<open>a/b/c\<close> is
  no cache key and the root list is gone, where the rebuilt index has both. This holds
  for every sort that \<open>sortsGroups\<close> admits.
\<close>

theorem cache_loses_shared_prefix:
  assumes "sortsGroups tableSort"
  shows
    "(case unregisterGroup 1 [''a'', ''b'', ''d''] (registryDeep tableSort) of
      Some (Returned st) \<Rightarrow>
        groups st ''a'' \<noteq> None \<and> groups st ''a/b'' \<noteq> None \<and> groups st ''a/b/c'' \<noteq> None
        \<and> groups st ''a/b/d'' = None
        \<and> cachedPaths st ROOT_KEY = None
        \<and> cachedPaths st ''a'' = None
        \<and> cachedPaths st ''a/b'' = Some [[''a'', ''b'', ''c'']]
        \<and> rebuildCache [[''a''], [''a'', ''b''], [''a'', ''b'', ''c'']] ROOT_KEY = Some [[''a'']]
        \<and> rebuildCache [[''a''], [''a'', ''b''], [''a'', ''b'', ''c'']] ''a'' = Some [[''a'', ''b'']]
    | _ \<Rightarrow> False)"
  unfolding registryDeep_any_sort [OF assms]
  by code_simp

theorem cache_loses_shared_prefix_witness:
  "sortsGroups (sort_key (\<lambda>g. size_path (gpath g)))
   \<and> ((case unregisterGroup 1 [''a'', ''b'', ''d''] (registryDeep (sort_key (\<lambda>g. size_path (gpath g)))) of
      Some (Returned st) \<Rightarrow>
        groups st ''a'' \<noteq> None \<and> groups st ''a/b'' \<noteq> None \<and> groups st ''a/b/c'' \<noteq> None
        \<and> groups st ''a/b/d'' = None
        \<and> cachedPaths st ROOT_KEY = None
        \<and> cachedPaths st ''a'' = None
        \<and> cachedPaths st ''a/b'' = Some [[''a'', ''b'', ''c'']]
        \<and> rebuildCache [[''a''], [''a'', ''b''], [''a'', ''b'', ''c'']] ROOT_KEY = Some [[''a'']]
        \<and> rebuildCache [[''a''], [''a'', ''b''], [''a'', ''b'', ''c'']] ''a'' = Some [[''a'', ''b'']]
    | _ \<Rightarrow> False))"
  using sortsGroups_sort_key cache_loses_shared_prefix [OF sortsGroups_sort_key]
  by (rule conjI)

text \<open>
  Claim C4. After a path is unregistered, the children of its parent should no longer
  contain it. Register the groups \<^verbatim>\<open>a\<close>, \<^verbatim>\<open>a/b\<close> and \<^verbatim>\<open>a/c\<close> and unregister
  \<^verbatim>\<open>a/c\<close>: the root key is deleted although \<^verbatim>\<open>a\<close> is registered. Unregistering
  \<^verbatim>\<open>a/b\<close> next, \<^verbatim>\<open>uncachePath\<close> stops at the missing root key, and
  \<^verbatim>\<open>getChildPaths(a)\<close> still contains \<^verbatim>\<open>a/b\<close>.
\<close>

theorem unregistered_group_stays_cached:
  assumes "sortsGroups tableSort"
  shows
    "(case unregisterGroup 1 [''a'', ''c''] (registryABC tableSort) of
      Some (Returned st1) \<Rightarrow>
        groups st1 ''a'' \<noteq> None \<and> getRootPaths st1 = []
        \<and> getChildPaths st1 [''a''] = [[''a'', ''b'']]
        \<and> (case unregisterGroup 1 [''a'', ''b''] st1 of
              Some (Returned st2) \<Rightarrow>
                groups st2 ''a/b'' = None \<and> getChildPaths st2 [''a''] = [[''a'', ''b'']]
            | _ \<Rightarrow> False)
    | _ \<Rightarrow> False)"
  unfolding registryABC_any_sort [OF assms]
  by code_simp

theorem unregistered_group_stays_cached_witness:
  "sortsGroups (sort_key (\<lambda>g. size_path (gpath g)))
   \<and> ((case unregisterGroup 1 [''a'', ''c''] (registryABC (sort_key (\<lambda>g. size_path (gpath g)))) of
      Some (Returned st1) \<Rightarrow>
        groups st1 ''a'' \<noteq> None \<and> getRootPaths st1 = []
        \<and> getChildPaths st1 [''a''] = [[''a'', ''b'']]
        \<and> (case unregisterGroup 1 [''a'', ''b''] st1 of
              Some (Returned st2) \<Rightarrow>
                groups st2 ''a/b'' = None \<and> getChildPaths st2 [''a''] = [[''a'', ''b'']]
            | _ \<Rightarrow> False)
    | _ \<Rightarrow> False))"
  using sortsGroups_sort_key unregistered_group_stays_cached [OF sortsGroups_sort_key]
  by (rule conjI)

text \<open>
  Claim C6. \<^verbatim>\<open>unregisterGroup\<close> should remove the group and all its descendants from
  the maps and from the cache. Register the groups \<^verbatim>\<open>a\<close>, \<^verbatim>\<open>a/b\<close> and \<^verbatim>\<open>a/c\<close> and
  unregister \<^verbatim>\<open>a\<close>: all three leave the \<^verbatim>\<open>groups\<close> map and the three signals fire,
  children first, but unregistering \<^verbatim>\<open>a/b\<close> deletes the root key, so the walks for
  \<^verbatim>\<open>a/c\<close> and \<^verbatim>\<open>a\<close> stop at once and the cache keeps \<^verbatim>\<open>a/c\<close> under the key \<^verbatim>\<open>a\<close>.
\<close>

theorem unregisterGroup_leaves_child_cached:
  assumes "sortsGroups tableSort"
  shows
    "(case unregisterGroup 2 [''a''] (registryABC tableSort) of
      Some (Returned st) \<Rightarrow>
        groups st ''a'' = None \<and> groups st ''a/b'' = None \<and> groups st ''a/c'' = None
        \<and> cachedPaths st ''a'' = Some [[''a'', ''c'']]
        \<and> getChildPaths st [''a''] = [[''a'', ''c'']]
        \<and> fired st = fired (registryABC tableSort)
            @ [GroupUnregistered [''a'', ''b''], GroupUnregistered [''a'', ''c''],
               GroupUnregistered [''a'']]
    | _ \<Rightarrow> False)"
  unfolding registryABC_any_sort [OF assms]
  by code_simp

theorem unregisterGroup_leaves_child_cached_witness:
  "sortsGroups (sort_key (\<lambda>g. size_path (gpath g)))
   \<and> ((case unregisterGroup 2 [''a''] (registryABC (sort_key (\<lambda>g. size_path (gpath g)))) of
      Some (Returned st) \<Rightarrow>
        groups st ''a'' = None \<and> groups st ''a/b'' = None \<and> groups st ''a/c'' = None
        \<and> cachedPaths st ''a'' = Some [[''a'', ''c'']]
        \<and> getChildPaths st [''a''] = [[''a'', ''c'']]
        \<and> fired st = fired (registryABC (sort_key (\<lambda>g. size_path (gpath g))))
            @ [GroupUnregistered [''a'', ''b''], GroupUnregistered [''a'', ''c''],
               GroupUnregistered [''a'']]
    | _ \<Rightarrow> False))"
  using sortsGroups_sort_key unregisterGroup_leaves_child_cached [OF sortsGroups_sort_key]
  by (rule conjI)

text \<open>
  Claim C7. A successful \<^verbatim>\<open>unregisterCommand\<close> should remove every path of the
  command from the \<^verbatim>\<open>commands\<close> map and from the cache. For a command with the paths
  \<^verbatim>\<open>a/x\<close> and \<^verbatim>\<open>a/y\<close> under the registered group \<^verbatim>\<open>a\<close>, both paths leave the map,
  the group's child list is emptied and the signal fires once; but uncaching \<^verbatim>\<open>a/x\<close>
  deletes the root key, so the walk for \<^verbatim>\<open>a/y\<close> stops at once and \<^verbatim>\<open>a/y\<close> stays in
  the cache.
\<close>

theorem unregisterCommand_leaves_alias_cached:
  assumes "sortsGroups tableSort"
  shows
    "(case unregisterCommand [''a'', ''x''] (addCommand commandXY (Some ''a'') (registryA tableSort)) of
      Returned st \<Rightarrow>
        commands st ''a/x'' = None \<and> commands st ''a/y'' = None
        \<and> map_option getCommands (groups st ''a'') = Some []
        \<and> cachedPaths st ''a'' = Some [[''a'', ''y'']]
        \<and> getChildPaths st [''a''] = [[''a'', ''y'']]
        \<and> fired st = fired (registryA tableSort) @ [CommandRegistered commandXY, CommandUnregistered commandXY]
    | Threw msg st \<Rightarrow> False)"
  unfolding registryA_any_sort [OF assms]
  by code_simp

theorem unregisterCommand_leaves_alias_cached_witness:
  "sortsGroups (sort_key (\<lambda>g. size_path (gpath g)))
   \<and> ((case unregisterCommand [''a'', ''x''] (addCommand commandXY (Some ''a'') (registryA (sort_key (\<lambda>g. size_path (gpath g))))) of
      Returned st \<Rightarrow>
        commands st ''a/x'' = None \<and> commands st ''a/y'' = None
        \<and> map_option getCommands (groups st ''a'') = Some []
        \<and> cachedPaths st ''a'' = Some [[''a'', ''y'']]
        \<and> getChildPaths st [''a''] = [[''a'', ''y'']]
        \<and> fired st = fired (registryA (sort_key (\<lambda>g. size_path (gpath g)))) @ [CommandRegistered commandXY, CommandUnregistered commandXY]
    | Threw msg st \<Rightarrow> False))"
  using sortsGroups_sort_key unregisterCommand_leaves_alias_cached [OF sortsGroups_sort_key]
  by (rule conjI)

text \<open>
  Claim C10. \<^verbatim>\<open>getChildPaths\<close> should return the empty list for a prefix with no
  children, whatever the letter case of the query. Register the groups \<^verbatim>\<open>a\<close>,
  \<^verbatim>\<open>a/b\<close> and \<^verbatim>\<open>a/c\<close>, then unregister \<^verbatim>\<open>a/c\<close> and \<^verbatim>\<open>a/b\<close>: the group \<^verbatim>\<open>a\<close> has
  no child group and no child command left and neither path is registered, yet
  \<^verbatim>\<open>getChildPaths\<close> returns \<^verbatim>\<open>a/b\<close> for the queries \<^verbatim>\<open>a\<close> and \<^verbatim>\<open>A\<close>. And with only
  the group \<^verbatim>\<open>a\<close> registered, the query \<^verbatim>\<open>__root__\<close>, at which nothing is registered,
  is answered with the root list, because its canonical string is the root key.
\<close>

theorem childless_prefix_lists_stale_child:
  assumes "sortsGroups tableSort"
  shows
    "(case unregisterGroup 1 [''a'', ''c''] (registryABC tableSort) of
      Some (Returned st1) \<Rightarrow>
        (case unregisterGroup 1 [''a'', ''b''] st1 of
           Some (Returned st2) \<Rightarrow>
             map_option getGroups (groups st2 ''a'') = Some []
             \<and> map_option getCommands (groups st2 ''a'') = Some []
             \<and> groups st2 ''a/b'' = None \<and> groups st2 ''a/c'' = None
             \<and> commands st2 ''a/b'' = None \<and> commands st2 ''a/c'' = None
             \<and> getChildPaths st2 [''a''] = [[''a'', ''b'']]
             \<and> getChildPaths st2 [''A''] = [[''a'', ''b'']]
         | _ \<Rightarrow> False)
    | _ \<Rightarrow> False)
   \<and> groups (registryA tableSort) ''__root__'' = None
   \<and> commands (registryA tableSort) ''__root__'' = None
   \<and> getChildPaths (registryA tableSort) [''__root__''] = [[''a'']]"
  unfolding registryABC_any_sort [OF assms] registryA_any_sort [OF assms]
  by code_simp

theorem childless_prefix_lists_stale_child_witness:
  "sortsGroups (sort_key (\<lambda>g. size_path (gpath g)))
   \<and> ((case unregisterGroup 1 [''a'', ''c''] (registryABC (sort_key (\<lambda>g. size_path (gpath g)))) of
      Some (Returned st1) \<Rightarrow>
        (case unregisterGroup 1 [''a'', ''b''] st1 of
           Some (Returned st2) \<Rightarrow>
             map_option getGroups (groups st2 ''a'') = Some []
             \<and> map_option getCommands (groups st2 ''a'') = Some []
             \<and> groups st2 ''a/b'' = None \<and> groups st2 ''a/c'' = None
             \<and> commands st2 ''a/b'' = None \<and> commands st2 ''a/c'' = None
             \<and> getChildPaths st2 [''a''] = [[''a'', ''b'']]
             \<and> getChildPaths st2 [''A''] = [[''a'', ''b'']]
         | _ \<Rightarrow> False)
    | _ \<Rightarrow> False)
   \<and> groups (registryA (sort_key (\<lambda>g. size_path (gpath g)))) ''__root__'' = None
   \<and> commands (registryA (sort_key (\<lambda>g. size_path (gpath g)))) ''__root__'' = None
   \<and> getChildPaths (registryA (sort_key (\<lambda>g. size_path (gpath g)))) [''__root__''] = [[''a'']])"
  using sortsGroups_sort_key childless_prefix_lists_stale_child [OF sortsGroups_sort_key]
  by (rule conjI)

section \<open>Registrations that should have been skipped\<close>

lemma registerGroup_single_any_sort:
  "sortsGroups tableSort \<Longrightarrow>
     registerGroup tableSort [g] st = registerGroup (sort_key (\<lambda>g. size_path (gpath g))) [g] st"
  by (rule registerGroup_tie_free) simp_all

lemma registerGroup_b_c_any_sort:
  "sortsGroups tableSort \<Longrightarrow>
     registerGroup tableSort [groupOpts ''b'' (Some [''x'']), groupOpts ''c'' (Some [''a'', ''q''])] st
       = registerGroup (sort_key (\<lambda>g. size_path (gpath g)))
           [groupOpts ''b'' (Some [''x'']), groupOpts ''c'' (Some [''a'', ''q''])] st"
  by (rule registerGroup_tie_free) (simp_all add: groupPath_def groupOpts_def size_path_def)

lemma registerGroup_c_b_any_sort:
  "sortsGroups tableSort \<Longrightarrow>
     registerGroup tableSort [groupOpts ''c'' (Some [''a'', ''q'']), groupOpts ''b'' (Some [''x''])] st
       = registerGroup (sort_key (\<lambda>g. size_path (gpath g)))
           [groupOpts ''c'' (Some [''a'', ''q'']), groupOpts ''b'' (Some [''x''])] st"
  by (rule registerGroup_tie_free) (simp_all add: groupPath_def groupOpts_def size_path_def)

text \<open>
  Claim C2. One group of a batch whose parent is not registered should be skipped alone.
  With \<^verbatim>\<open>a\<close> and \<^verbatim>\<open>a/q\<close> registered and \<^verbatim>\<open>x\<close> not, the batch of \<^verbatim>\<open>b\<close> under
  \<^verbatim>\<open>x\<close> and \<^verbatim>\<open>c\<close> under \<^verbatim>\<open>a/q\<close> registers nothing, in either order of the
  arguments and for every sort that \<open>sortsGroups\<close> admits: \<^verbatim>\<open>x/b\<close> has the smaller
  depth and comes first, its missing parent ends the call, and \<^verbatim>\<open>a/q/c\<close> is never
  reached. Alone, \<^verbatim>\<open>c\<close> under \<^verbatim>\<open>a/q\<close> is registered.
\<close>

theorem registerGroup_missing_parent_ends_call:
  assumes "sortsGroups tableSort"
  shows
    "groups (registryAQ tableSort) ''a/q'' \<noteq> None \<and> groups (registryAQ tableSort) ''x'' = None
   \<and> groups (registerGroup tableSort
               [groupOpts ''b'' (Some [''x'']), groupOpts ''c'' (Some [''a'', ''q''])]
               (registryAQ tableSort)) ''a/q/c'' = None
   \<and> groups (registerGroup tableSort
               [groupOpts ''c'' (Some [''a'', ''q'']), groupOpts ''b'' (Some [''x''])]
               (registryAQ tableSort)) ''a/q/c'' = None
   \<and> fired (registerGroup tableSort
               [groupOpts ''b'' (Some [''x'']), groupOpts ''c'' (Some [''a'', ''q''])]
               (registryAQ tableSort)) = fired (registryAQ tableSort)
   \<and> groups (registerGroup tableSort [groupOpts ''c'' (Some [''a'', ''q''])] (registryAQ tableSort))
        ''a/q/c'' \<noteq> None"
  unfolding registryAQ_any_sort [OF assms] registerGroup_b_c_any_sort [OF assms] registerGroup_c_b_any_sort [OF assms] registerGroup_single_any_sort [OF assms]
  by code_simp

theorem registerGroup_missing_parent_ends_call_witness:
  "sortsGroups (sort_key (\<lambda>g. size_path (gpath g)))
   \<and> (groups (registryAQ (sort_key (\<lambda>g. size_path (gpath g)))) ''a/q'' \<noteq> None \<and> groups (registryAQ (sort_key (\<lambda>g. size_path (gpath g)))) ''x'' = None
   \<and> groups (registerGroup (sort_key (\<lambda>g. size_path (gpath g)))
               [groupOpts ''b'' (Some [''x'']), groupOpts ''c'' (Some [''a'', ''q''])]
               (registryAQ (sort_key (\<lambda>g. size_path (gpath g))))) ''a/q/c'' = None
   \<and> groups (registerGroup (sort_key (\<lambda>g. size_path (gpath g)))
               [groupOpts ''c'' (Some [''a'', ''q'']), groupOpts ''b'' (Some [''x''])]
               (registryAQ (sort_key (\<lambda>g. size_path (gpath g))))) ''a/q/c'' = None
   \<and> fired (registerGroup (sort_key (\<lambda>g. size_path (gpath g)))
               [groupOpts ''b'' (Some [''x'']), groupOpts ''c'' (Some [''a'', ''q''])]
               (registryAQ (sort_key (\<lambda>g. size_path (gpath g))))) = fired (registryAQ (sort_key (\<lambda>g. size_path (gpath g))))
   \<and> groups (registerGroup (sort_key (\<lambda>g. size_path (gpath g))) [groupOpts ''c'' (Some [''a'', ''q''])] (registryAQ (sort_key (\<lambda>g. size_path (gpath g)))))
        ''a/q/c'' \<noteq> None)"
  using sortsGroups_sort_key registerGroup_missing_parent_ends_call [OF sortsGroups_sort_key]
  by (rule conjI)

text \<open>
  Claim C3. A command at the path of a registered group, or a group at the path of a
  registered command, should be rejected and leave the maps as they were. With the group
  \<^verbatim>\<open>a\<close> registered, registering a command named \<^verbatim>\<open>a\<close> reports the clash and then
  stores the command, caches it and fires the signal; with the command \<^verbatim>\<open>a\<close>
  registered first, registering a group \<^verbatim>\<open>a\<close> stores the group as well.
\<close>

theorem duplicate_path_is_stored:
  assumes "sortsGroups tableSort"
  shows
    "groups (registryA tableSort) ''a'' \<noteq> None \<and> commands (registryA tableSort) ''a'' = None
   \<and> (case registerCommand ''a'' [] None (registryA tableSort) of
         Returned st \<Rightarrow>
           commands st ''a'' = Some \<lparr>cpath = [''a''], caliases = []\<rparr>
           \<and> groups st ''a'' \<noteq> None
           \<and> fired st = fired (registryA tableSort) @ [CommandRegistered \<lparr>cpath = [''a''], caliases = []\<rparr>]
           \<and> logged st = logged (registryA tableSort)
               @ [Error ''A group already exists with the same name as this command: a'',
                  Debug ''Registered command: a'']
       | Threw msg st \<Rightarrow> False)
   \<and> (case registerCommand ''a'' [] None (emptyRegistry :: unit registry) of
         Returned st \<Rightarrow>
           commands st ''a'' \<noteq> None \<and> groups st ''a'' = None
           \<and> groups (registerGroup tableSort [groupOpts ''a'' None] st) ''a'' \<noteq> None
           \<and> commands (registerGroup tableSort [groupOpts ''a'' None] st) ''a'' \<noteq> None
           \<and> fired (registerGroup tableSort [groupOpts ''a'' None] st)
               = fired st @ [GroupRegistered [''a'']]
       | Threw msg st \<Rightarrow> False)"
  unfolding registryA_any_sort [OF assms] registerGroup_single_any_sort [OF assms]
  by code_simp

theorem duplicate_path_is_stored_witness:
  "sortsGroups (sort_key (\<lambda>g. size_path (gpath g)))
   \<and> (groups (registryA (sort_key (\<lambda>g. size_path (gpath g)))) ''a'' \<noteq> None \<and> commands (registryA (sort_key (\<lambda>g. size_path (gpath g)))) ''a'' = None
   \<and> (case registerCommand ''a'' [] None (registryA (sort_key (\<lambda>g. size_path (gpath g)))) of
         Returned st \<Rightarrow>
           commands st ''a'' = Some \<lparr>cpath = [''a''], caliases = []\<rparr>
           \<and> groups st ''a'' \<noteq> None
           \<and> fired st = fired (registryA (sort_key (\<lambda>g. size_path (gpath g)))) @ [CommandRegistered \<lparr>cpath = [''a''], caliases = []\<rparr>]
           \<and> logged st = logged (registryA (sort_key (\<lambda>g. size_path (gpath g))))
               @ [Error ''A group already exists with the same name as this command: a'',
                  Debug ''Registered command: a'']
       | Threw msg st \<Rightarrow> False)
   \<and> (case registerCommand ''a'' [] None (emptyRegistry :: unit registry) of
         Returned st \<Rightarrow>
           commands st ''a'' \<noteq> None \<and> groups st ''a'' = None
           \<and> groups (registerGroup (sort_key (\<lambda>g. size_path (gpath g))) [groupOpts ''a'' None] st) ''a'' \<noteq> None
           \<and> commands (registerGroup (sort_key (\<lambda>g. size_path (gpath g))) [groupOpts ''a'' None] st) ''a'' \<noteq> None
           \<and> fired (registerGroup (sort_key (\<lambda>g. size_path (gpath g))) [groupOpts ''a'' None] st)
               = fired st @ [GroupRegistered [''a'']]
       | Threw msg st \<Rightarrow> False))"
  using sortsGroups_sort_key duplicate_path_is_stored [OF sortsGroups_sort_key]
  by (rule conjI)

end
